theory Spec2Isabelle
  imports Main
begin

section \<open>JavaScript strings\<close>

text \<open>
  Strings are \<^typ>\<open>string\<close>. The only string operations the server code uses are
  \<^verbatim>\<open>toLowerCase\<close>, \<^verbatim>\<open>replace\<close> with the two patterns of \<^verbatim>\<open>generateOperationId\<close>,
  \<^verbatim>\<open>split(' ')\<close> and \<^verbatim>\<open>Array.prototype.join\<close>. Lower-casing is modelled on ASCII
  letters (the HTTP methods and the route URLs of the repository are ASCII); every
  other character is left as it is.
\<close>

definition toLowerCase_char :: "char \<Rightarrow> char" where
  "toLowerCase_char c =
     (if 65 \<le> (of_char c :: nat) \<and> (of_char c :: nat) \<le> 90
      then (case c of Char b0 b1 b2 b3 b4 b5 b6 b7 \<Rightarrow> Char b0 b1 b2 b3 b4 True b6 b7)
      else c)"

definition toLowerCase :: "string \<Rightarrow> string" where
  "toLowerCase s = map toLowerCase_char s"

text \<open>\<^verbatim>\<open>s.replace(/^\//, '')\<close>: one leading slash, when there is one, is removed.\<close>

fun stripLeadingSlash :: "string \<Rightarrow> string" where
  "stripLeadingSlash [] = []"
| "stripLeadingSlash (c # cs) = (if c = CHR ''/'' then cs else c # cs)"

text \<open>\<^verbatim>\<open>s.replace(/\//g, '_')\<close>: every slash becomes an underscore.\<close>

definition replaceSlashes :: "string \<Rightarrow> string" where
  "replaceSlashes s = map (\<lambda>c. if c = CHR ''/'' then CHR ''_'' else c) s"

text \<open>
  \<^verbatim>\<open>s.split(sep)\<close> for a one-character separator: the pieces between the separators,
  empty pieces included, so the result is never empty.
\<close>

fun splitOn :: "char \<Rightarrow> string \<Rightarrow> string list" where
  "splitOn sep [] = [[]]"
| "splitOn sep (c # cs) =
     (if c = sep then [] # splitOn sep cs
      else (case splitOn sep cs of
              [] \<Rightarrow> [[c]]
            | p # ps \<Rightarrow> (c # p) # ps))"

text \<open>\<^verbatim>\<open>parts.join(sep)\<close>.\<close>

fun join :: "string \<Rightarrow> string list \<Rightarrow> string" where
  "join sep [] = []"
| "join sep [p] = p"
| "join sep (p # q # ps) = p @ sep @ join sep (q # ps)"

section \<open>Operation identifiers\<close>

text \<open>
  \<^verbatim>\<open>
  function generateOperationId(url: string, method: string): string {
    const cleanUrl = url.replace(/^\//, '').toLowerCase();
    const pathPart = cleanUrl.replace(/\//g, '_');
    const methodPart = method.toLowerCase();
    return `${pathPart}_${methodPart}`;
  }
  \<close>
\<close>

definition generateOperationId :: "string \<Rightarrow> string \<Rightarrow> string" where
  "generateOperationId url method =
     (let cleanUrl = toLowerCase (stripLeadingSlash url);
          pathPart = replaceSlashes cleanUrl;
          methodPart = toLowerCase method
      in pathPart @ ''_'' @ methodPart)"

text \<open>
  The identifier as the specification words it: the URL lower-cased, then the leading
  slash stripped, then the remaining slashes replaced, then the lower-case method
  appended after an underscore.
\<close>

definition specOperationId :: "string \<Rightarrow> string \<Rightarrow> string" where
  "specOperationId url method =
     replaceSlashes (stripLeadingSlash (toLowerCase url)) @ ''_'' @ toLowerCase method"

section \<open>Values and schemas\<close>

text \<open>
  Request parts, handler results and validated data are JavaScript values. Objects are
  association lists in key order; numbers are integers (no claim depends on a
  fraction).
\<close>

datatype jsval =
    JUndefined
  | JNull
  | JBool bool
  | JNum int
  | JStr string
  | JArr "jsval list"
  | JObj "(string \<times> jsval) list"

text \<open>\<^verbatim>\<open>data[key]\<close>: a missing key reads as \<^verbatim>\<open>undefined\<close>.\<close>

definition lookup :: "(string \<times> jsval) list \<Rightarrow> string \<Rightarrow> jsval" where
  "lookup kvs k = (case map_of kvs k of None \<Rightarrow> JUndefined | Some v \<Rightarrow> v)"

text \<open>
  The schemas come from the validation library (zod, version 3), which is not part of
  the repository. The server code uses three things of a schema: whether it is an
  instance of \<^verbatim>\<open>ZodObject\<close>, its \<^verbatim>\<open>strict()\<close> method and its \<^verbatim>\<open>safeParse\<close> method. The
  model keeps the structure these depend on and leaves the rest a parameter:
  \<^item> \<open>ZLeaf f\<close> is any schema that is not an object schema and reports at its own path
    (\<^verbatim>\<open>z.string()\<close>, \<^verbatim>\<open>z.coerce.number()\<close>, a schema with \<^verbatim>\<open>.default()\<close> or
    \<^verbatim>\<open>.transform()\<close>): \<open>f\<close> maps the input to the issue message or to the output;
  \<^item> \<open>ZOptional s\<close> is \<^verbatim>\<open>s.optional()\<close>, an instance of \<^verbatim>\<open>ZodOptional\<close>;
  \<^item> \<open>ZObject shape mode\<close> is \<^verbatim>\<open>z.object(shape)\<close> with its policy for unknown keys
    (\<^verbatim>\<open>strip\<close> is the library's default, \<^verbatim>\<open>.strict()\<close> and \<^verbatim>\<open>.passthrough()\<close> set the
    other two).
  An object schema with a \<^verbatim>\<open>.catchall()\<close> schema, which takes the place of the policy, is
  not in this fragment.
\<close>

datatype unknownKeys = Strip | Strict | Passthrough

datatype zschema =
    ZLeaf "jsval \<Rightarrow> string + jsval"
  | ZOptional zschema
  | ZObject "(string \<times> zschema) list" unknownKeys

text \<open>A \<^verbatim>\<open>ZodIssue\<close>: the path from the root of the parsed value, and the message.\<close>

record zissue =
  path :: "string list"
  message :: string

text \<open>The library's name for the type of a value, as its messages print it.\<close>

fun parsedType :: "jsval \<Rightarrow> string" where
  "parsedType JUndefined = ''undefined''"
| "parsedType JNull = ''null''"
| "parsedType (JBool _) = ''boolean''"
| "parsedType (JNum _) = ''number''"
| "parsedType (JStr _) = ''string''"
| "parsedType (JArr _) = ''array''"
| "parsedType (JObj _) = ''object''"

text \<open>The default message of an \<^verbatim>\<open>invalid_type\<close> issue.\<close>

definition invalidTypeMessage :: "string \<Rightarrow> jsval \<Rightarrow> string" where
  "invalidTypeMessage expected v =
     (if v = JUndefined then ''Required''
      else ''Expected '' @ expected @ '', received '' @ parsedType v)"

text \<open>The default message of an \<^verbatim>\<open>unrecognized_keys\<close> issue: the keys, each quoted.\<close>

definition unrecognizedKeysMessage :: "string list \<Rightarrow> string" where
  "unrecognizedKeysMessage ks =
     ''Unrecognized key(s) in object: ''
       @ join '', '' (map (\<lambda>k. [CHR 0x27] @ k @ [CHR 0x27]) ks)"

text \<open>
  Parsing returns the issues it raised and the parsed value, \<open>None\<close> when parsing was
  aborted. An object schema (\<^verbatim>\<open>ZodObject._parse\<close>) rejects what is not an object; it
  parses every key of its shape, in shape order, on \<^verbatim>\<open>data[key]\<close>; in strict mode it
  then raises one issue, at its own path, that lists the keys of the input that are
  not in the shape, and in passthrough mode it copies them. The parsed object
  (\<^verbatim>\<open>ParseStatus.mergeObjectSync\<close>) has a key of the shape when its parsed value is not
  \<^verbatim>\<open>undefined\<close> or the input had the key.
\<close>

fun parse :: "zschema \<Rightarrow> string list \<Rightarrow> jsval \<Rightarrow> zissue list \<times> jsval option"
  and parseShape ::
    "(string \<times> zschema) list \<Rightarrow> string list \<Rightarrow> (string \<times> jsval) list
       \<Rightarrow> zissue list \<times> (string \<times> jsval) list option"
where
  "parse (ZLeaf f) p v =
     (case f v of
        Inl msg \<Rightarrow> ([\<lparr>path = p, message = msg\<rparr>], None)
      | Inr out \<Rightarrow> ([], Some out))"
| "parse (ZOptional s) p v =
     (if v = JUndefined then ([], Some JUndefined) else parse s p v)"
| "parse (ZObject shape mode) p v =
     (case v of
        JObj kvs \<Rightarrow>
          (let extraKeys = filter (\<lambda>k. k \<notin> set (map fst shape)) (map fst kvs);
               (fieldIssues, fields) = parseShape shape p kvs;
               issues = fieldIssues @
                 (if mode = Strict \<and> extraKeys \<noteq> []
                  then [\<lparr>path = p, message = unrecognizedKeysMessage extraKeys\<rparr>]
                  else []);
               extras = (if mode = Passthrough
                         then map (\<lambda>k. (k, lookup kvs k)) extraKeys else [])
           in (issues, map_option (\<lambda>fs. JObj (fs @ extras)) fields))
      | _ \<Rightarrow> ([\<lparr>path = p, message = invalidTypeMessage ''object'' v\<rparr>], None))"
| "parseShape [] p kvs = ([], Some [])"
| "parseShape ((k, s) # shape) p kvs =
     (let (issues, value) = parse s (p @ [k]) (lookup kvs k);
          (restIssues, rest) = parseShape shape p kvs
      in (issues @ restIssues,
          case (value, rest) of
            (Some w, Some fs) \<Rightarrow>
              Some (if w \<noteq> JUndefined \<or> k \<in> set (map fst kvs) then (k, w) # fs else fs)
          | _ \<Rightarrow> None))"

text \<open>
  \<^verbatim>\<open>schema.safeParse(data)\<close>: success with the parsed value when no issue was raised,
  failure with the issues otherwise.
\<close>

datatype safeParseResult = Success jsval | Failure "zissue list"

definition safeParse :: "zschema \<Rightarrow> jsval \<Rightarrow> safeParseResult" where
  "safeParse schema data =
     (case parse schema [] data of
        ([], Some out) \<Rightarrow> Success out
      | (issues, _) \<Rightarrow> Failure issues)"

text \<open>
  \<^verbatim>\<open>
  function applyStrict<T extends z.ZodTypeAny>(schema: T): T {
    if (schema instanceof z.ZodObject) {
      return schema.strict() as unknown as T;
    }
    return schema;
  }
  \<close>
\<close>

fun applyStrict :: "zschema \<Rightarrow> zschema" where
  "applyStrict (ZObject shape mode) = ZObject shape Strict"
| "applyStrict schema = schema"

text \<open>\<^verbatim>\<open>z.string()\<close>.\<close>

definition zString :: zschema where
  "zString =
     ZLeaf (\<lambda>v. case v of JStr s \<Rightarrow> Inr v | _ \<Rightarrow> Inl (invalidTypeMessage ''string'' v))"

text \<open>\<^verbatim>\<open>z.number()\<close>; numbers being integers here, also \<^verbatim>\<open>z.number().int()\<close>.\<close>

definition zNumber :: zschema where
  "zNumber =
     ZLeaf (\<lambda>v. case v of JNum n \<Rightarrow> Inr v | _ \<Rightarrow> Inl (invalidTypeMessage ''number'' v))"

section \<open>Errors and replies\<close>

text \<open>
  The three error classes of the validation module, and \<open>OtherError\<close> for every
  exception that is an instance of none of them.
\<close>

record errorDetail =
  field :: string
  detailMessage :: string

datatype exn =
    NotFoundError string
  | ValidationError "errorDetail list"
  | ResponseValidationError "errorDetail list"
  | OtherError string

text \<open>The JSON document of an error reply; \<open>details\<close> is absent from some replies.\<close>

record errorResponse =
  statusCode :: nat
  error :: string
  replyMessage :: string
  details :: "errorDetail list option"

text \<open>What \<^verbatim>\<open>console.error\<close> is given when the response does not validate.\<close>

record logEntry =
  logUrl :: string
  logMethod :: string
  logErrors :: "zissue list"
  logResponse :: jsval

text \<open>
  How a route handler ends: it returns a value for the framework to send, it sends a
  reply itself (\<^verbatim>\<open>reply.code(n).send(doc)\<close>), or it throws to the framework's error
  handler.
\<close>

datatype outcome =
    Returned jsval
  | Replied nat errorResponse
  | Thrown exn

section \<open>Requests and endpoints\<close>

text \<open>
  The request fields the server code reads: the URL and method, the
  \<^verbatim>\<open>authorization\<close> header, the three raw parts, and the \<^verbatim>\<open>auth\<close> context of type
  \<open>'c\<close> that the authentication hook may attach.
\<close>

record 'c request =
  reqUrl :: string
  reqMethod :: string
  reqAuthorization :: "string option"
  reqQuery :: jsval
  reqBody :: jsval
  reqParams :: jsval
  reqAuth :: "'c option"

text \<open>
  \<^verbatim>\<open>EndpointConfig\<close>. The handler is asynchronous code of the caller: it may change the
  application's state \<open>'s\<close>, and it returns a value or throws.
\<close>

record ('c, 's) endpointConfig =
  httpMethod :: string
  url :: string
  query :: "zschema option"
  body :: "zschema option"
  params :: "zschema option"
  response :: zschema
  operationId :: "string option"
  authenticated :: bool
  handler :: "'c request \<Rightarrow> 's \<Rightarrow> (exn + jsval) \<times> 's"

text \<open>
  The operation identifier that \<^verbatim>\<open>createEndpoint\<close> registers the route with:
  \<^verbatim>\<open>
  const autoGeneratedOperationId = generateOperationId(endpointConfig.url, endpointConfig.method);
  const operationId = endpointConfig.config?.operationId || autoGeneratedOperationId;
  \<close>
  The field \<open>operationId\<close> of the record is the optional \<^verbatim>\<open>config.operationId\<close>; \<^verbatim>\<open>||\<close> also
  falls back on the empty string.
\<close>

definition routeOperationId :: "('c, 's) endpointConfig \<Rightarrow> string" where
  "routeOperationId endpointConfig =
     (let autoGeneratedOperationId =
            generateOperationId (url endpointConfig) (httpMethod endpointConfig)
      in case operationId endpointConfig of
           None \<Rightarrow> autoGeneratedOperationId
         | Some oid \<Rightarrow> if oid = [] then autoGeneratedOperationId else oid)"

section \<open>Authentication\<close>

record 'c authValidationResult =
  valid :: bool
  authContext :: "'c option"
  authError :: "string option"

text \<open>
  \<^verbatim>\<open>apiToken?: string | ApiTokenValidator<TAuthContext>\<close>. A validator is code of the
  caller and may throw.
\<close>

datatype 'c apiToken =
    TokenString string
  | TokenValidator "string \<Rightarrow> 'c request \<Rightarrow> exn + 'c authValidationResult"

text \<open>
  The hook ends by sending a reply, by throwing, or by returning with the request
  (possibly with the context attached) for the route handler.
\<close>

datatype 'c authOutcome =
    AuthReplied nat errorResponse
  | AuthThrown exn
  | AuthPassed "'c request"

text \<open>
  \<^verbatim>\<open>authenticateToken\<close>, with the reply documents as the source writes them.
  \<^verbatim>\<open>!authHeader\<close> holds for a missing header and for the empty string;
  \<^verbatim>\<open>result.error || 'Invalid token'\<close> falls back for a missing message and for the empty
  string.
\<close>

definition authenticateToken :: "'c apiToken \<Rightarrow> 'c request \<Rightarrow> 'c authOutcome" where
  "authenticateToken apiToken request =
     (case reqAuthorization request of
        None \<Rightarrow>
          AuthReplied 401
            \<lparr>statusCode = 401, error = ''Unauthorized'',
             replyMessage = ''Missing authorization header'', details = None\<rparr>
      | Some authHeader \<Rightarrow>
          if authHeader = []
          then AuthReplied 401
                 \<lparr>statusCode = 401, error = ''Unauthorized'',
                  replyMessage = ''Missing authorization header'', details = None\<rparr>
          else
            (let parts = splitOn CHR '' '' authHeader in
             if length parts \<noteq> 2 \<or> parts ! 0 \<noteq> ''Bearer''
             then AuthReplied 401
                    \<lparr>statusCode = 401, error = ''Unauthorized'',
                     replyMessage =
                       ''Invalid authorization header format. Expected: Bearer <token>'',
                     details = None\<rparr>
             else
               (let token = parts ! 1 in
                case apiToken of
                  TokenValidator validator \<Rightarrow>
                    (case validator token request of
                       Inl e \<Rightarrow> AuthThrown e
                     | Inr result \<Rightarrow>
                         if \<not> valid result
                         then AuthReplied 403
                                \<lparr>statusCode = 403, error = ''Forbidden'',
                                 replyMessage =
                                   (case authError result of
                                      None \<Rightarrow> ''Invalid token''
                                    | Some msg \<Rightarrow>
                                        if msg = [] then ''Invalid token'' else msg),
                                 details = None\<rparr>
                         else
                           (case authContext result of
                              None \<Rightarrow> AuthPassed request
                            | Some c \<Rightarrow> AuthPassed (request\<lparr>reqAuth := Some c\<rparr>)))
                | TokenString secret \<Rightarrow>
                    if token \<noteq> secret
                    then AuthReplied 403
                           \<lparr>statusCode = 403, error = ''Forbidden'',
                            replyMessage = ''Invalid token'', details = None\<rparr>
                    else AuthPassed request)))"

section \<open>The validated handler\<close>

text \<open>
  One request part, as each of the three blocks of \<^verbatim>\<open>validatedHandler\<close> treats it: a
  part the endpoint does not declare stays \<^verbatim>\<open>undefined\<close>; a declared part is parsed by
  its schema after \<^verbatim>\<open>applyStrict\<close>, and a failure throws a \<^verbatim>\<open>ValidationError\<close> whose
  details are the issues, the field being the part's name, a dot and the joined path.
\<close>

definition requestDetails :: "string \<Rightarrow> zissue list \<Rightarrow> errorDetail list" where
  "requestDetails part errors =
     map (\<lambda>err. \<lparr>field = part @ ''.'' @ join ''.'' (path err),
                  detailMessage = message err\<rparr>) errors"

definition validatePart :: "string \<Rightarrow> zschema option \<Rightarrow> jsval \<Rightarrow> exn + jsval" where
  "validatePart part schema raw =
     (case schema of
        None \<Rightarrow> Inr JUndefined
      | Some s \<Rightarrow>
          (case safeParse (applyStrict s) raw of
             Failure errors \<Rightarrow> Inl (ValidationError (requestDetails part errors))
           | Success data \<Rightarrow> Inr data))"

text \<open>
  The first half of the \<^verbatim>\<open>try\<close> block: query, then body, then params, each throwing at
  its failure, and then the typed request
  \<^verbatim>\<open>{...request, query: validatedQuery, body: validatedBody, params: validatedParams,
  auth: request.auth}\<close>.
  The spread copies the own enumerable properties of the framework's request object;
  which of the other properties these are is the framework's matter, and the statements
  below read only the three parts and \<^verbatim>\<open>auth\<close> from the typed request.
\<close>

definition typedRequest :: "('c, 's) endpointConfig \<Rightarrow> 'c request \<Rightarrow> exn + 'c request" where
  "typedRequest endpointConfig request =
     (case validatePart ''query'' (query endpointConfig) (reqQuery request) of
        Inl e \<Rightarrow> Inl e
      | Inr validatedQuery \<Rightarrow>
     (case validatePart ''body'' (body endpointConfig) (reqBody request) of
        Inl e \<Rightarrow> Inl e
      | Inr validatedBody \<Rightarrow>
     (case validatePart ''params'' (params endpointConfig) (reqParams request) of
        Inl e \<Rightarrow> Inl e
      | Inr validatedParams \<Rightarrow>
          Inr (request\<lparr>reqQuery := validatedQuery, reqBody := validatedBody,
                       reqParams := validatedParams, reqAuth := reqAuth request\<rparr>))))"

text \<open>
  The second half of the \<^verbatim>\<open>try\<close> block, after the handler has returned \<open>result\<close>: the
  response schema after \<^verbatim>\<open>applyStrict\<close> parses it; a failure is logged and throws a
  \<^verbatim>\<open>ResponseValidationError\<close> (the field is the joined path, or \<^verbatim>\<open>root\<close> when that is
  empty); otherwise the handler's own \<open>result\<close> is returned.
\<close>

definition responseDetails :: "zissue list \<Rightarrow> errorDetail list" where
  "responseDetails errors =
     map (\<lambda>err. \<lparr>field = (if join ''.'' (path err) = [] then ''root''
                            else join ''.'' (path err)),
                  detailMessage = message err\<rparr>) errors"

definition guardResponse ::
  "('c, 's) endpointConfig \<Rightarrow> 'c request \<Rightarrow> jsval \<Rightarrow> (exn + jsval) \<times> logEntry list" where
  "guardResponse endpointConfig request result =
     (case safeParse (applyStrict (response endpointConfig)) result of
        Failure errors \<Rightarrow>
          (Inl (ResponseValidationError (responseDetails errors)),
           [\<lparr>logUrl = reqUrl request, logMethod = reqMethod request,
             logErrors = errors, logResponse = result\<rparr>])
      | Success data \<Rightarrow> (Inr result, []))"

text \<open>The \<^verbatim>\<open>catch\<close> block: three classes are answered, everything else is thrown again.\<close>

fun catchError :: "exn \<Rightarrow> outcome" where
  "catchError (NotFoundError msg) =
     Replied 404
       \<lparr>statusCode = 404, error = ''Not Found'', replyMessage = msg, details = None\<rparr>"
| "catchError (ValidationError ds) =
     Replied 400
       \<lparr>statusCode = 400, error = ''Bad Request'', replyMessage = ''Validation failed'',
        details = Some ds\<rparr>"
| "catchError (ResponseValidationError ds) =
     Replied 500
       \<lparr>statusCode = 500, error = ''Internal Server Error'',
        replyMessage = ''Response validation failed - server returned invalid data'',
        details = Some ds\<rparr>"
| "catchError e = Thrown e"

text \<open>
  \<^verbatim>\<open>validatedHandler\<close>: the outcome, what was logged, and the application's state after
  the request.
\<close>

definition validatedHandler ::
  "('c, 's) endpointConfig \<Rightarrow> 'c request \<Rightarrow> 's \<Rightarrow> outcome \<times> logEntry list \<times> 's" where
  "validatedHandler endpointConfig request st =
     (case typedRequest endpointConfig request of
        Inl e \<Rightarrow> (catchError e, [], st)
      | Inr typed \<Rightarrow>
          (case handler endpointConfig typed st of
             (Inl e, st') \<Rightarrow> (catchError e, [], st')
           | (Inr result, st') \<Rightarrow>
               (case guardResponse endpointConfig request result of
                  (Inl e, logs) \<Rightarrow> (catchError e, logs, st')
                | (Inr sent, logs) \<Rightarrow> (Returned sent, logs, st'))))"

section \<open>The route\<close>

text \<open>
  \<^verbatim>\<open>createEndpoint\<close> registers one route with the framework:
  \<^verbatim>\<open>
  this.fastify.route({
    method: endpointConfig.method,
    url: endpointConfig.url,
    schema: {
      ...
      querystring: endpointConfig.query ? applyStrict(endpointConfig.query) : undefined,
      params: endpointConfig.params ? applyStrict(endpointConfig.params) : undefined,
      ...(endpointConfig.method !== 'GET' && endpointConfig.body
        ? { body: applyStrict(endpointConfig.body) }
        : {}),
      response: createStandardResponses(responses),
      ...
    },
    ...(endpointConfig.authenticated ? { preHandler: this.authenticateToken } : {}),
    handler: validatedHandler,
  });
  \<close>
  and the constructor installs the validation library's compilers
  (\<^verbatim>\<open>setValidatorCompiler\<close>, \<^verbatim>\<open>setSerializerCompiler\<close>). What the framework and the
  compilers do with a route is not code of the repository; it is modelled here as
  far as the route options above depend on it: the framework validates the request
  against the route's schemas, then runs the \<^verbatim>\<open>preHandler\<close> hook, then the handler, and
  serializes every reply through the response schema registered for its status code.
\<close>

subsection \<open>The schemas of the route\<close>

definition schemaQuerystring :: "('c, 's) endpointConfig \<Rightarrow> zschema option" where
  "schemaQuerystring endpointConfig = map_option applyStrict (query endpointConfig)"

definition schemaParams :: "('c, 's) endpointConfig \<Rightarrow> zschema option" where
  "schemaParams endpointConfig = map_option applyStrict (params endpointConfig)"

definition schemaBody :: "('c, 's) endpointConfig \<Rightarrow> zschema option" where
  "schemaBody endpointConfig =
     (if httpMethod endpointConfig \<noteq> ''GET''
      then map_option applyStrict (body endpointConfig) else None)"

text \<open>
  \<^verbatim>\<open>
  export const ErrorResponseSchema = z.object({
    statusCode: z.number().int().describe('HTTP status code'),
    code: z.string().optional().describe('Error code'),
    error: z.string().describe('Error name'),
    message: z.string().describe('Error message'),
  });
  \<close>
  The numbers of the model are integers, so \<^verbatim>\<open>.int()\<close> adds no check; \<^verbatim>\<open>.describe()\<close> does
  not change what a schema parses.
\<close>

definition ErrorResponseSchema :: zschema where
  "ErrorResponseSchema =
     ZObject [(''statusCode'', zNumber), (''code'', ZOptional zString),
              (''error'', zString), (''message'', zString)] Strip"

text \<open>
  \<^verbatim>\<open>createStandardResponses\<close>: the given responses, with \<^verbatim>\<open>ErrorResponseSchema\<close> for the
  status codes 400 and 500.
\<close>

definition createStandardResponses :: "(nat \<rightharpoonup> zschema) \<Rightarrow> (nat \<rightharpoonup> zschema)" where
  "createStandardResponses responses =
     responses(400 \<mapsto> ErrorResponseSchema, 500 \<mapsto> ErrorResponseSchema)"

text \<open>
  The schema that \<^verbatim>\<open>createEndpoint\<close> writes out for 401 and for 403:
  \<^verbatim>\<open>z.object({ statusCode: z.number(), error: z.string(), message: z.string() })\<close>.
\<close>

definition authErrorSchema :: zschema where
  "authErrorSchema =
     ZObject [(''statusCode'', zNumber), (''error'', zString), (''message'', zString)] Strip"

text \<open>
  The response schemas of the route: the strict response schema for 200, the two
  authentication errors when the endpoint is authenticated, and the standard ones.
\<close>

definition routeResponses :: "('c, 's) endpointConfig \<Rightarrow> (nat \<rightharpoonup> zschema)" where
  "routeResponses endpointConfig =
     (let responses = [200 \<mapsto> applyStrict (response endpointConfig)]
      in createStandardResponses
           (if authenticated endpointConfig
            then responses(401 \<mapsto> authErrorSchema, 403 \<mapsto> authErrorSchema)
            else responses))"

subsection \<open>Schema validation by the framework\<close>

text \<open>JavaScript truthiness.\<close>

fun truthy :: "jsval \<Rightarrow> bool" where
  "truthy JUndefined = False"
| "truthy JNull = False"
| "truthy (JBool b) = b"
| "truthy (JNum n) = (n \<noteq> 0)"
| "truthy (JStr s) = (s \<noteq> [])"
| "truthy (JArr _) = True"
| "truthy (JObj _) = True"

text \<open>
  One part of the request in the framework's validation phase. A part without a schema
  is left alone. Otherwise the compiled validator, which is \<^verbatim>\<open>safeParse\<close> of the schema,
  is given the part, \<^verbatim>\<open>null\<close> standing in for \<^verbatim>\<open>undefined\<close>; its issues fail the request,
  and its parsed value, when truthy, replaces the part in the request.
\<close>

definition validateParam :: "zschema option \<Rightarrow> jsval \<Rightarrow> zissue list + jsval" where
  "validateParam validator raw =
     (case validator of
        None \<Rightarrow> Inr raw
      | Some schema \<Rightarrow>
          (case safeParse schema (if raw = JUndefined then JNull else raw) of
             Failure issues \<Rightarrow> Inl issues
           | Success parsed \<Rightarrow> Inr (if truthy parsed then parsed else raw)))"

text \<open>
  The validation phase: params, then body, then query string, stopping at the first
  part that fails; the result is the name of that part with its issues, or the request
  with the parsed parts.
\<close>

definition fastifyValidation ::
  "('c, 's) endpointConfig \<Rightarrow> 'c request \<Rightarrow> (string \<times> zissue list) + 'c request" where
  "fastifyValidation endpointConfig request =
     (case validateParam (schemaParams endpointConfig) (reqParams request) of
        Inl issues \<Rightarrow> Inl (''params'', issues)
      | Inr validatedParams \<Rightarrow>
     (case validateParam (schemaBody endpointConfig) (reqBody request) of
        Inl issues \<Rightarrow> Inl (''body'', issues)
      | Inr validatedBody \<Rightarrow>
     (case validateParam (schemaQuerystring endpointConfig) (reqQuery request) of
        Inl issues \<Rightarrow> Inl (''querystring'', issues)
      | Inr validatedQuery \<Rightarrow>
          Inr (request\<lparr>reqParams := validatedParams, reqBody := validatedBody,
                       reqQuery := validatedQuery\<rparr>))))"

text \<open>
  The framework's reply to a request that fails this phase: status 400 and error code
  \<^verbatim>\<open>FST_ERR_VALIDATION\<close>. How the message is written from the part's name and its issues
  depends on the versions of the framework and of the compilers; it is a parameter of
  the route.
\<close>

definition validationErrorJson :: "string \<Rightarrow> jsval" where
  "validationErrorJson msg =
     JObj [(''statusCode'', JNum 400), (''code'', JStr ''FST_ERR_VALIDATION''),
           (''error'', JStr ''Bad Request''), (''message'', JStr msg)]"

subsection \<open>Transmission\<close>

text \<open>The reply documents of the server code as JavaScript objects.\<close>

definition detailJson :: "errorDetail \<Rightarrow> jsval" where
  "detailJson d = JObj [(''field'', JStr (field d)), (''message'', JStr (detailMessage d))]"

definition docJson :: "errorResponse \<Rightarrow> jsval" where
  "docJson doc =
     JObj ([(''statusCode'', JNum (int (statusCode doc))), (''error'', JStr (error doc)),
            (''message'', JStr (replyMessage doc))] @
           (case details doc of
              None \<Rightarrow> []
            | Some ds \<Rightarrow> [(''details'', JArr (map detailJson ds))]))"

text \<open>
  What leaves the route: a response with its status code and payload, a payload that
  its response schema rejects, or an exception handed to the framework's error
  handler.
\<close>

datatype wire =
    Sent nat jsval
  | SerializationFailed nat "zissue list"
  | Propagated exn

text \<open>
  The compiled serializer of a status code is \<^verbatim>\<open>safeParse\<close> of the response schema
  registered for it: what is sent is the parsed payload. A status code without a
  schema sends the payload as it is.
\<close>

definition serialize :: "(nat \<rightharpoonup> zschema) \<Rightarrow> nat \<Rightarrow> jsval \<Rightarrow> wire" where
  "serialize responses code payload =
     (case responses code of
        None \<Rightarrow> Sent code payload
      | Some schema \<Rightarrow>
          (case safeParse schema payload of
             Success parsed \<Rightarrow> Sent code parsed
           | Failure issues \<Rightarrow> SerializationFailed code issues))"

text \<open>
  The end of the handler on the route: a returned value is sent with status 200, a
  reply with its own status code, both through the serializer; an exception goes to the
  framework's error handler.
\<close>

definition transmit ::
  "('c, 's) endpointConfig \<Rightarrow> outcome \<times> logEntry list \<times> 's \<Rightarrow> wire \<times> logEntry list \<times> 's" where
  "transmit endpointConfig ended =
     (case ended of
        (Returned result, logs, st) \<Rightarrow>
          (serialize (routeResponses endpointConfig) 200 result, logs, st)
      | (Replied code doc, logs, st) \<Rightarrow>
          (serialize (routeResponses endpointConfig) code (docJson doc), logs, st)
      | (Thrown e, logs, st) \<Rightarrow> (Propagated e, logs, st))"

subsection \<open>One request on the route\<close>

text \<open>
  Schema validation, then the \<^verbatim>\<open>preHandler\<close> hook when the endpoint is authenticated,
  then \<^verbatim>\<open>validatedHandler\<close>. The hook and the handler see the request with the parsed
  parts; a reply of the hook ends the request. \<open>formatError\<close> writes the message of a
  schema validation failure.
\<close>

definition handleRequest ::
  "(string \<Rightarrow> zissue list \<Rightarrow> string) \<Rightarrow> 'c apiToken \<Rightarrow> ('c, 's) endpointConfig
     \<Rightarrow> 'c request \<Rightarrow> 's \<Rightarrow> wire \<times> logEntry list \<times> 's" where
  "handleRequest formatError apiToken endpointConfig request st =
     (case fastifyValidation endpointConfig request of
        Inl (part, issues) \<Rightarrow>
          (serialize (routeResponses endpointConfig) 400
             (validationErrorJson (formatError part issues)), [], st)
      | Inr validated \<Rightarrow>
          if authenticated endpointConfig
          then (case authenticateToken apiToken validated of
                  AuthReplied code doc \<Rightarrow>
                    (serialize (routeResponses endpointConfig) code (docJson doc), [], st)
                | AuthThrown e \<Rightarrow> (Propagated e, [], st)
                | AuthPassed request' \<Rightarrow>
                    transmit endpointConfig (validatedHandler endpointConfig request' st))
          else transmit endpointConfig (validatedHandler endpointConfig validated st))"

section \<open>Example data\<close>

text \<open>
  Concrete schemas, validators and requests, in the style of the repository's tests and
  examples; the closed theorems below evaluate the server code on them.
\<close>

text \<open>\<^verbatim>\<open>z.string().min(1)\<close>.\<close>

definition zStringMin1 :: zschema where
  "zStringMin1 =
     ZLeaf (\<lambda>v. case v of
                  JStr s \<Rightarrow>
                    if s = [] then Inl ''String must contain at least 1 character(s)''
                    else Inr v
                | _ \<Rightarrow> Inl (invalidTypeMessage ''string'' v))"

text \<open>\<^verbatim>\<open>z.string().transform((s) => s.length)\<close>.\<close>

definition zStringLength :: zschema where
  "zStringLength =
     ZLeaf (\<lambda>v. case v of
                  JStr s \<Rightarrow> Inr (JNum (int (length s)))
                | _ \<Rightarrow> Inl (invalidTypeMessage ''string'' v))"

text \<open>\<^verbatim>\<open>z.number().default(10)\<close>.\<close>

definition zNumberDefault10 :: zschema where
  "zNumberDefault10 =
     ZLeaf (\<lambda>v. case v of
                  JUndefined \<Rightarrow> Inr (JNum 10)
                | JNum n \<Rightarrow> Inr v
                | _ \<Rightarrow> Inl (invalidTypeMessage ''number'' v))"

definition exampleRequest :: "string request" where
  "exampleRequest =
     \<lparr>reqUrl = ''/users'', reqMethod = ''POST'', reqAuthorization = None,
      reqQuery = JObj [], reqBody = JUndefined, reqParams = JObj [], reqAuth = None\<rparr>"

text \<open>
  A token validator in the style of the custom-auth example: two known tokens, one of
  them with a context; it rejects the empty token with an empty message and every
  other token with a message of its own.
\<close>

definition exampleValidator ::
  "string \<Rightarrow> string request \<Rightarrow> exn + string authValidationResult" where
  "exampleValidator token request =
     (if token = ''admin-token-123''
      then Inr \<lparr>valid = True, authContext = Some ''admin'', authError = None\<rparr>
      else if token = ''user-token-456''
      then Inr \<lparr>valid = True, authContext = None, authError = None\<rparr>
      else if token = []
      then Inr \<lparr>valid = False, authContext = None, authError = Some []\<rparr>
      else Inr \<lparr>valid = False, authContext = None,
                authError = Some ''Invalid or expired token''\<rparr>)"

text \<open>An endpoint whose handler counts its calls in the state and echoes the body.\<close>

definition exampleEndpoint :: "(string, nat) endpointConfig" where
  "exampleEndpoint =
     \<lparr>httpMethod = ''POST'', url = ''/users'',
      query = Some (ZObject [(''limit'', zNumberDefault10)] Strip),
      body = Some (ZObject [(''name'', zStringMin1)] Strip),
      params = None,
      response = ZObject [(''name'', zString)] Strip,
      operationId = None,
      authenticated = True,
      handler = (\<lambda>request n. (Inr (reqBody request), Suc n))\<rparr>"

text \<open>
  A request that the example endpoint accepts, and the typed request built from it: the
  query gets its default, and the part the endpoint does not declare is \<^verbatim>\<open>undefined\<close>.
\<close>

definition validRequest :: "string request" where
  "validRequest =
     exampleRequest\<lparr>reqBody := JObj [(''name'', JStr ''Al'')],
                    reqParams := JObj [(''id'', JStr ''7'')]\<rparr>"

definition validTyped :: "string request" where
  "validTyped =
     validRequest\<lparr>reqQuery := JObj [(''limit'', JNum 10)], reqParams := JUndefined\<rparr>"


definition failingHandler :: "exn \<Rightarrow> string request \<Rightarrow> nat \<Rightarrow> (exn + jsval) \<times> nat" where
  "failingHandler e request n = (Inl e, Suc n)"

text \<open>
  A message for schema validation failures in the style of the framework's default
  formatter: the part, the path and the message of each issue.
\<close>

definition exampleFormat :: "string \<Rightarrow> zissue list \<Rightarrow> string" where
  "exampleFormat part issues =
     join '', '' (map (\<lambda>issue. part @ ''/'' @ join ''/'' (path issue) @ '' '' @ message issue)
                    issues)"

text \<open>The example endpoint without authentication.\<close>

definition publicEndpoint :: "(string, nat) endpointConfig" where
  "publicEndpoint = exampleEndpoint\<lparr>authenticated := False\<rparr>"

text \<open>
  The public endpoint with the query schema
  \<^verbatim>\<open>z.object({ n: z.string().transform((s) => s.length) })\<close>.
\<close>

definition lengthEndpoint :: "(string, nat) endpointConfig" where
  "lengthEndpoint = publicEndpoint\<lparr>query := Some (ZObject [(''n'', zStringLength)] Strip)\<rparr>"

text \<open>
  The public endpoint with the body schema
  \<^verbatim>\<open>z.object({ name: z.string().min(1) }).optional()\<close>.
\<close>

definition optionalBodyEndpoint :: "(string, nat) endpointConfig" where
  "optionalBodyEndpoint =
     publicEndpoint\<lparr>body := Some (ZOptional (ZObject [(''name'', zStringMin1)] Strip))\<rparr>"

section \<open>Properties of the operation identifier\<close>

lemma toLowerCase_char_slash: "toLowerCase_char c = CHR ''/'' \<longleftrightarrow> c = CHR ''/''"
  by (cases c) (auto simp: toLowerCase_char_def)

lemma toLowerCase_stripLeadingSlash:
  "toLowerCase (stripLeadingSlash u) = stripLeadingSlash (toLowerCase u)"
  by (cases u) (auto simp: toLowerCase_def toLowerCase_char_slash)

lemma generateOperationId_spec: "generateOperationId u m = specOperationId u m"
  by (simp add: generateOperationId_def specOperationId_def toLowerCase_stripLeadingSlash)

text \<open>
  Claim C7, as stated, says that \<^verbatim>\<open>GET /users/:id\<close> gets the identifier
  \<^verbatim>\<open>users__id_get\<close>. The code replaces slashes only: the colon of a path parameter
  stays, and the identifier is \<^verbatim>\<open>users_:id_get\<close>.
\<close>

theorem operationId_users_id_counterexample:
  "routeOperationId (exampleEndpoint\<lparr>httpMethod := ''GET'', url := ''/users/:id''\<rparr>) =
     ''users_:id_get'' \<and>
   routeOperationId (exampleEndpoint\<lparr>httpMethod := ''GET'', url := ''/users/:id''\<rparr>) \<noteq>
     ''users__id_get''"
  by (simp add: routeOperationId_def exampleEndpoint_def generateOperationId_def
      toLowerCase_def toLowerCase_char_def replaceSlashes_def)

text \<open>
  Claim C7, amended. Without an override, and with the empty string as override, the
  operation identifier is the URL lower-cased, with the leading slash stripped, every
  remaining slash replaced by an underscore, and the lower-case method appended after
  an underscore; every other character, the colon of a path parameter included, is
  kept, so \<^verbatim>\<open>GET /users/:id\<close> gets \<^verbatim>\<open>users_:id_get\<close>. A non-empty override is used
  instead.
\<close>

theorem operationId_amended:
  "routeOperationId (endpointConfig\<lparr>operationId := None\<rparr>) =
     specOperationId (url endpointConfig) (httpMethod endpointConfig) \<and>
   routeOperationId (endpointConfig\<lparr>operationId := Some []\<rparr>) =
     specOperationId (url endpointConfig) (httpMethod endpointConfig) \<and>
   routeOperationId (endpointConfig\<lparr>operationId := Some (c # cs)\<rparr>) = c # cs \<and>
   routeOperationId
       (endpointConfig\<lparr>httpMethod := ''GET'', url := ''/users/:id'', operationId := None\<rparr>) =
     ''users_:id_get''"
  by (simp add: routeOperationId_def generateOperationId_spec)
    (simp add: specOperationId_def toLowerCase_def toLowerCase_char_def replaceSlashes_def)

section \<open>Properties of the validated handler\<close>

lemmas example_defs =
  exampleEndpoint_def exampleRequest_def validRequest_def validTyped_def
  zNumberDefault10_def zStringMin1_def zString_def
  lookup_def invalidTypeMessage_def safeParse_def validatePart_def typedRequest_def



lemma typedRequest_handler [simp]:
  "typedRequest (endpointConfig\<lparr>handler := h\<rparr>) request = typedRequest endpointConfig request"
  by (simp add: typedRequest_def cong: sum.case_cong)



text \<open>
  Claim C9. The typed request that the handler is called with has \<^verbatim>\<open>undefined\<close> for
  every part the endpoint does not declare, whatever the raw request carried there.
\<close>

theorem undeclared_parts_undefined:
  assumes "typedRequest endpointConfig request = Inr typed"
  shows "(query endpointConfig = None \<longrightarrow> reqQuery typed = JUndefined) \<and>
    (body endpointConfig = None \<longrightarrow> reqBody typed = JUndefined) \<and>
    (params endpointConfig = None \<longrightarrow> reqParams typed = JUndefined) \<and>
    validatedHandler endpointConfig request st =
      (case handler endpointConfig typed st of
         (Inl e, st') \<Rightarrow> (catchError e, [], st')
       | (Inr result, st') \<Rightarrow>
           (case guardResponse endpointConfig request result of
              (Inl e, logs) \<Rightarrow> (catchError e, logs, st')
            | (Inr sent, logs) \<Rightarrow> (Returned sent, logs, st')))"
  using assms
  by (auto simp: validatedHandler_def typedRequest_def validatePart_def split: sum.splits)

theorem undeclared_parts_undefined_witness:
  "reqParams validRequest = JObj [(''id'', JStr ''7'')] \<and>
   params exampleEndpoint = None \<and>
   typedRequest exampleEndpoint validRequest = Inr validTyped \<and>
   reqParams validTyped = JUndefined"
proof -
  have h: "typedRequest exampleEndpoint validRequest = Inr validTyped"
    by (simp add: example_defs)
  have p: "params exampleEndpoint = None"
    by (simp add: exampleEndpoint_def)
  show ?thesis
    using undeclared_parts_undefined [OF h, of 0] h p
    by (simp add: validRequest_def)
qed

section \<open>Properties of parsing\<close>

lemma issues_Failure:
  "issues \<noteq> [] \<Longrightarrow>
   (case (issues, v) of ([], Some out) \<Rightarrow> Success out | (is, _) \<Rightarrow> Failure is) = Failure issues"
  by (cases issues) auto

lemma join_mentions: "x \<in> set xs \<Longrightarrow> \<exists>before after. join sep xs = before @ x @ after"
proof (induction sep xs rule: join.induct)
  case (1 sep)
  then show ?case by simp
next
  case (2 sep p)
  then have "join sep [p] = [] @ x @ []" by simp
  then show ?case by blast
next
  case (3 sep p q ps)
  show ?case
  proof (cases "x = p")
    case True
    then have "join sep (p # q # ps) = [] @ x @ (sep @ join sep (q # ps))" by simp
    then show ?thesis by blast
  next
    case False
    with 3 obtain before after where "join sep (q # ps) = before @ x @ after" by auto
    then have "join sep (p # q # ps) = (p @ sep @ before) @ x @ after" by simp
    then show ?thesis by blast
  qed
qed

lemma unrecognizedKeysMessage_mentions:
  assumes "k \<in> set ks"
  shows "\<exists>before after. unrecognizedKeysMessage ks = before @ [CHR 0x27] @ k @ [CHR 0x27] @ after"
proof -
  let ?q = "\<lambda>k. [CHR 0x27] @ k @ [CHR 0x27]"
  from assms have "?q k \<in> set (map ?q ks)" by (rule imageI [of k "set ks" ?q, simplified set_map [symmetric]])
  then obtain before after where "join '', '' (map ?q ks) = before @ ?q k @ after"
    using join_mentions by blast
  then have "unrecognizedKeysMessage ks =
      (''Unrecognized key(s) in object: '' @ before) @ [CHR 0x27] @ k @ [CHR 0x27] @ after"
    by (simp add: unrecognizedKeysMessage_def)
  then show ?thesis by blast
qed

lemma safeParse_strict_unknown:
  assumes "filter (\<lambda>k. k \<notin> set (map fst shape)) (map fst kvs) \<noteq> []"
  shows "safeParse (ZObject shape Strict) (JObj kvs) =
    Failure (fst (parseShape shape [] kvs) @
      [\<lparr>path = [], message = unrecognizedKeysMessage
          (filter (\<lambda>k. k \<notin> set (map fst shape)) (map fst kvs))\<rparr>])"
proof -
  let ?unknown = "filter (\<lambda>k. k \<notin> set (map fst shape)) (map fst kvs)"
  let ?issues = "fst (parseShape shape [] kvs) @
      [\<lparr>path = [], message = unrecognizedKeysMessage ?unknown\<rparr>]"
  have parsed: "parse (ZObject shape Strict) [] (JObj kvs) =
      (?issues, map_option (\<lambda>fs. JObj (fs @ [])) (snd (parseShape shape [] kvs)))"
    using assms by (simp add: Let_def case_prod_beta del: set_map)
  have "?issues \<noteq> []" by simp
  then show ?thesis
    unfolding safeParse_def parsed by (rule issues_Failure)
qed

lemma validateParam_strict_unknown:
  assumes "filter (\<lambda>k. k \<notin> set (map fst shape)) (map fst kvs) \<noteq> []"
  shows "validateParam (Some (applyStrict (ZObject shape mode))) (JObj kvs) =
    Inl (fst (parseShape shape [] kvs) @
      [\<lparr>path = [], message = unrecognizedKeysMessage
          (filter (\<lambda>k. k \<notin> set (map fst shape)) (map fst kvs))\<rparr>])"
  using safeParse_strict_unknown [OF assms] by (simp add: validateParam_def)

section \<open>Properties of the route\<close>

lemma routeResponses_standard:
  "routeResponses endpointConfig 200 = Some (applyStrict (response endpointConfig))"
  "routeResponses endpointConfig 400 = Some ErrorResponseSchema"
  "routeResponses endpointConfig 500 = Some ErrorResponseSchema"
  "routeResponses endpointConfig 404 = None"
  by (simp_all add: routeResponses_def createStandardResponses_def Let_def)

lemma routeResponses_authenticated:
  "authenticated endpointConfig \<Longrightarrow> routeResponses endpointConfig 401 = Some authErrorSchema"
  "authenticated endpointConfig \<Longrightarrow> routeResponses endpointConfig 403 = Some authErrorSchema"
  by (simp_all add: routeResponses_def createStandardResponses_def Let_def)

lemma routeResponses_handler [simp]:
  "routeResponses (endpointConfig\<lparr>handler := h\<rparr>) = routeResponses endpointConfig"
  by (simp add: routeResponses_def)

lemma transmit_handler [simp]:
  "transmit (endpointConfig\<lparr>handler := h\<rparr>) = transmit endpointConfig"
  by (rule ext) (simp add: transmit_def split: prod.splits outcome.splits)

lemma fastifyValidation_handler [simp]:
  "fastifyValidation (endpointConfig\<lparr>handler := h\<rparr>) request =
   fastifyValidation endpointConfig request"
  by (simp add: fastifyValidation_def schemaParams_def schemaBody_def schemaQuerystring_def
      cong: sum.case_cong)

text \<open>
  The standard error schema keeps the status code, the error name and the message of a
  reply document, and drops its details; the framework's own validation error passes
  it unchanged.
\<close>

lemma ErrorResponseSchema_docJson:
  "safeParse ErrorResponseSchema
     (docJson \<lparr>statusCode = code, error = name, replyMessage = msg, details = ds\<rparr>) =
   Success (JObj [(''statusCode'', JNum (int code)), (''error'', JStr name),
                  (''message'', JStr msg)])"
  by (cases ds)
    (simp_all add: safeParse_def ErrorResponseSchema_def docJson_def zNumber_def zString_def
      lookup_def)

lemma ErrorResponseSchema_validationErrorJson:
  "safeParse ErrorResponseSchema (validationErrorJson msg) = Success (validationErrorJson msg)"
  by (simp add: safeParse_def ErrorResponseSchema_def validationErrorJson_def zNumber_def
      zString_def lookup_def)

lemma authErrorSchema_docJson:
  "safeParse authErrorSchema
     (docJson \<lparr>statusCode = code, error = name, replyMessage = msg, details = None\<rparr>) =
   Success (JObj [(''statusCode'', JNum (int code)), (''error'', JStr name),
                  (''message'', JStr msg)])"
  by (simp add: safeParse_def authErrorSchema_def docJson_def zNumber_def zString_def lookup_def)

lemma serialize_validation_error:
  "serialize (routeResponses endpointConfig) 400 (validationErrorJson msg) =
   Sent 400 (JObj [(''statusCode'', JNum 400), (''code'', JStr ''FST_ERR_VALIDATION''),
                   (''error'', JStr ''Bad Request''), (''message'', JStr msg)])"
  by (simp add: serialize_def routeResponses_standard ErrorResponseSchema_validationErrorJson)
    (simp add: validationErrorJson_def)

lemma handleRequest_schema_failure:
  assumes "fastifyValidation endpointConfig request = Inl (part, issues)"
  shows "handleRequest formatError apiToken (endpointConfig\<lparr>handler := h\<rparr>) request st =
    (Sent 400
       (JObj [(''statusCode'', JNum 400), (''code'', JStr ''FST_ERR_VALIDATION''),
              (''error'', JStr ''Bad Request''),
              (''message'', JStr (formatError part issues))]),
     [], st)"
  using assms by (simp add: handleRequest_def serialize_validation_error)

lemma authenticateToken_replied:
  assumes "authenticateToken apiToken request = AuthReplied code doc"
  shows "\<exists>msg. code = 401 \<and> doc = \<lparr>statusCode = 401, error = ''Unauthorized'',
                                   replyMessage = msg, details = None\<rparr> \<or>
               code = 403 \<and> doc = \<lparr>statusCode = 403, error = ''Forbidden'',
                                   replyMessage = msg, details = None\<rparr>"
  using assms
  by (auto simp: authenticateToken_def Let_def
      split: option.splits if_splits apiToken.splits sum.splits)

lemma serialize_auth_reply:
  assumes "authenticated endpointConfig"
    and "authenticateToken apiToken request = AuthReplied code doc"
  shows "serialize (routeResponses endpointConfig) code (docJson doc) =
    Sent code (JObj [(''statusCode'', JNum (int code)), (''error'', JStr (error doc)),
                     (''message'', JStr (replyMessage doc))])"
  using authenticateToken_replied [OF assms(2)] assms(1)
  by (auto simp: serialize_def routeResponses_authenticated authErrorSchema_docJson)

lemma transmit_catchError:
  "transmit endpointConfig (catchError e, logs, st) =
     ((case e of
         NotFoundError msg \<Rightarrow>
           Sent 404 (JObj [(''statusCode'', JNum 404), (''error'', JStr ''Not Found''),
                           (''message'', JStr msg)])
       | ValidationError ds \<Rightarrow>
           Sent 400 (JObj [(''statusCode'', JNum 400), (''error'', JStr ''Bad Request''),
                           (''message'', JStr ''Validation failed'')])
       | ResponseValidationError ds \<Rightarrow>
           Sent 500 (JObj [(''statusCode'', JNum 500),
                           (''error'', JStr ''Internal Server Error''),
                           (''message'',
                            JStr ''Response validation failed - server returned invalid data'')])
       | OtherError x \<Rightarrow> Propagated (OtherError x)),
      logs, st)"
  by (cases e)
    (simp_all add: transmit_def serialize_def routeResponses_standard
      ErrorResponseSchema_docJson, simp add: docJson_def)

lemmas route_defs =
  handleRequest_def fastifyValidation_def validateParam_def
  schemaParams_def schemaBody_def schemaQuerystring_def
  publicEndpoint_def lengthEndpoint_def optionalBodyEndpoint_def zStringLength_def







section \<open>Properties of strict validation\<close>

text \<open>
  Claim C4, as stated, says that an undeclared field of the input always makes
  validation fail. \<^verbatim>\<open>applyStrict\<close> makes a schema strict only when the schema itself is
  an object schema, and \<^verbatim>\<open>strict()\<close> does not reach the objects nested in the shape: under
  an optional object schema the undeclared field is dropped, validation succeeds and the
  route answers 200; inside a nested object it is dropped as well.
\<close>

theorem unknown_keys_dropped_counterexample:
  "body optionalBodyEndpoint = Some (ZOptional (ZObject [(''name'', zStringMin1)] Strip)) \<and>
   validateParam (schemaBody optionalBodyEndpoint)
       (JObj [(''name'', JStr ''John''), (''extraField'', JStr ''should-be-rejected'')]) =
     Inr (JObj [(''name'', JStr ''John'')]) \<and>
   validatePart ''body'' (body optionalBodyEndpoint)
       (JObj [(''name'', JStr ''John''), (''extraField'', JStr ''should-be-rejected'')]) =
     Inr (JObj [(''name'', JStr ''John'')]) \<and>
   handleRequest exampleFormat (TokenString ''test-token-123'') optionalBodyEndpoint
       (exampleRequest\<lparr>reqBody :=
          JObj [(''name'', JStr ''John''), (''extraField'', JStr ''should-be-rejected'')]\<rparr>) 0 =
     (Sent 200 (JObj [(''name'', JStr ''John'')]), [], 1) \<and>
   validatePart ''body'' (Some (ZObject [(''user'', ZObject [(''name'', zString)] Strip)] Strip))
       (JObj [(''user'',
               JObj [(''name'', JStr ''John''), (''extraField'', JStr ''should-be-rejected'')])]) =
     Inr (JObj [(''user'', JObj [(''name'', JStr ''John'')])])"
  by (simp add: route_defs example_defs validatePart_def typedRequest_def validatedHandler_def
      guardResponse_def transmit_def serialize_def routeResponses_standard)

text \<open>
  Claim C4, amended. For every declared part whose schema is itself an object schema
  (with a policy for unknown keys, not a catchall schema), whatever that policy is, and
  every input object with a top-level key \<open>k\<close> that the shape does not declare: parsing
  the part with the schema that \<^verbatim>\<open>applyStrict\<close> returns fails, whatever the other fields
  are (their issues come first), and the failure ends with one issue at the root of the
  part whose message lists the undeclared keys, \<open>k\<close> among them, each in quotes; the
  wrapper's validation of the part throws the \<^verbatim>\<open>ValidationError\<close> of these issues. On the
  route the request is answered 400 with the code \<^verbatim>\<open>FST_ERR_VALIDATION\<close> by the framework's
  schema validation, whatever the handler is and with the state unchanged: with the
  message of these issues when the validation reaches the part (no earlier part in the
  order params, body, querystring fails; the body of a \<^verbatim>\<open>GET\<close> endpoint is not
  registered), and with the message of an earlier failing part otherwise.
\<close>

theorem unknown_keys_rejected:
  assumes "k \<in> set (map fst kvs)" and "k \<notin> set (map fst shape)"
  shows "\<exists>unknown before after issues.
      unknown = filter (\<lambda>k. k \<notin> set (map fst shape)) (map fst kvs) \<and>
      k \<in> set unknown \<and>
      unrecognizedKeysMessage unknown = before @ [CHR 0x27] @ k @ [CHR 0x27] @ after \<and>
      issues = fst (parseShape shape [] kvs) @
                 [\<lparr>path = [], message = unrecognizedKeysMessage unknown\<rparr>] \<and>
      safeParse (applyStrict (ZObject shape mode)) (JObj kvs) = Failure issues \<and>
      validatePart part (Some (ZObject shape mode)) (JObj kvs) =
        Inl (ValidationError
               (requestDetails part (fst (parseShape shape [] kvs)) @
                [\<lparr>field = part @ ''.'',
                  detailMessage = unrecognizedKeysMessage unknown\<rparr>])) \<and>
      (params endpointConfig = Some (ZObject shape mode) \<and> reqParams request = JObj kvs \<longrightarrow>
         handleRequest formatError apiToken (endpointConfig\<lparr>handler := h\<rparr>) request st =
           (Sent 400
              (JObj [(''statusCode'', JNum 400), (''code'', JStr ''FST_ERR_VALIDATION''),
                     (''error'', JStr ''Bad Request''),
                     (''message'', JStr (formatError ''params'' issues))]),
            [], st)) \<and>
      (body endpointConfig = Some (ZObject shape mode) \<and> reqBody request = JObj kvs \<and>
         httpMethod endpointConfig \<noteq> ''GET'' \<and>
         validateParam (schemaParams endpointConfig) (reqParams request) = Inr validatedParams \<longrightarrow>
         handleRequest formatError apiToken (endpointConfig\<lparr>handler := h\<rparr>) request st =
           (Sent 400
              (JObj [(''statusCode'', JNum 400), (''code'', JStr ''FST_ERR_VALIDATION''),
                     (''error'', JStr ''Bad Request''),
                     (''message'', JStr (formatError ''body'' issues))]),
            [], st)) \<and>
      (query endpointConfig = Some (ZObject shape mode) \<and> reqQuery request = JObj kvs \<and>
         validateParam (schemaParams endpointConfig) (reqParams request) = Inr validatedParams \<and>
         validateParam (schemaBody endpointConfig) (reqBody request) = Inr validatedBody \<longrightarrow>
         handleRequest formatError apiToken (endpointConfig\<lparr>handler := h\<rparr>) request st =
           (Sent 400
              (JObj [(''statusCode'', JNum 400), (''code'', JStr ''FST_ERR_VALIDATION''),
                     (''error'', JStr ''Bad Request''),
                     (''message'', JStr (formatError ''querystring'' issues))]),
            [], st)) \<and>
      ((params endpointConfig = Some (ZObject shape mode) \<and> reqParams request = JObj kvs) \<or>
       (body endpointConfig = Some (ZObject shape mode) \<and> reqBody request = JObj kvs \<and>
          httpMethod endpointConfig \<noteq> ''GET'') \<or>
       (query endpointConfig = Some (ZObject shape mode) \<and> reqQuery request = JObj kvs) \<longrightarrow>
       (\<exists>failed failedIssues.
          handleRequest formatError apiToken (endpointConfig\<lparr>handler := h\<rparr>) request st =
            (Sent 400
               (JObj [(''statusCode'', JNum 400), (''code'', JStr ''FST_ERR_VALIDATION''),
                      (''error'', JStr ''Bad Request''),
                      (''message'', JStr (formatError failed failedIssues))]),
             [], st)))"
proof -
  define unknown where "unknown = filter (\<lambda>k. k \<notin> set (map fst shape)) (map fst kvs)"
  define issues where "issues = fst (parseShape shape [] kvs) @
      [\<lparr>path = [], message = unrecognizedKeysMessage unknown\<rparr>]"
  from assms have k: "k \<in> set unknown"
    unfolding unknown_def by simp
  then have nonempty: "unknown \<noteq> []" by auto
  from k obtain before after where
    mention: "unrecognizedKeysMessage unknown = before @ [CHR 0x27] @ k @ [CHR 0x27] @ after"
    using unrecognizedKeysMessage_mentions by blast
  have failure: "safeParse (applyStrict (ZObject shape mode)) (JObj kvs) = Failure issues"
    using safeParse_strict_unknown [of shape kvs] nonempty
    unfolding unknown_def issues_def by simp
  have rejected: "validateParam (Some (applyStrict (ZObject shape mode))) (JObj kvs) = Inl issues"
    using validateParam_strict_unknown [of shape kvs mode] nonempty
    unfolding unknown_def issues_def by simp
  have part: "validatePart part (Some (ZObject shape mode)) (JObj kvs) =
      Inl (ValidationError
             (requestDetails part (fst (parseShape shape [] kvs)) @
              [\<lparr>field = part @ ''.'', detailMessage = unrecognizedKeysMessage unknown\<rparr>]))"
    unfolding validatePart_def using failure by (simp add: requestDetails_def issues_def)
  have inParams: "fastifyValidation endpointConfig request = Inl (''params'', issues)"
    if "params endpointConfig = Some (ZObject shape mode) \<and> reqParams request = JObj kvs"
    using that rejected by (simp add: fastifyValidation_def schemaParams_def)
  have inBody: "fastifyValidation endpointConfig request = Inl (''body'', issues)"
    if "body endpointConfig = Some (ZObject shape mode) \<and> reqBody request = JObj kvs \<and>
         httpMethod endpointConfig \<noteq> ''GET'' \<and>
         validateParam (schemaParams endpointConfig) (reqParams request) = Inr validatedParams"
    for validatedParams
    using that rejected by (simp add: fastifyValidation_def schemaBody_def)
  have inQuery: "fastifyValidation endpointConfig request = Inl (''querystring'', issues)"
    if "query endpointConfig = Some (ZObject shape mode) \<and> reqQuery request = JObj kvs \<and>
         validateParam (schemaParams endpointConfig) (reqParams request) = Inr validatedParams \<and>
         validateParam (schemaBody endpointConfig) (reqBody request) = Inr validatedBody"
    for validatedParams validatedBody
    using that rejected by (simp add: fastifyValidation_def schemaQuerystring_def)
  have anywhere: "\<exists>failed failedIssues.
      fastifyValidation endpointConfig request = Inl (failed, failedIssues)"
    if "(params endpointConfig = Some (ZObject shape mode) \<and> reqParams request = JObj kvs) \<or>
       (body endpointConfig = Some (ZObject shape mode) \<and> reqBody request = JObj kvs \<and>
          httpMethod endpointConfig \<noteq> ''GET'') \<or>
       (query endpointConfig = Some (ZObject shape mode) \<and> reqQuery request = JObj kvs)"
  proof (cases "validateParam (schemaParams endpointConfig) (reqParams request)")
    case (Inl failedIssues)
    then show ?thesis by (simp add: fastifyValidation_def)
  next
    case params: (Inr validatedParams)
    show ?thesis
    proof (cases "validateParam (schemaBody endpointConfig) (reqBody request)")
      case (Inl failedIssues)
      with params show ?thesis by (simp add: fastifyValidation_def)
    next
      case (Inr validatedBody)
      with params that inParams inBody [of validatedParams]
        inQuery [of validatedParams validatedBody]
      show ?thesis by auto
    qed
  qed
  note reply = handleRequest_schema_failure
    [of endpointConfig request _ _ formatError apiToken h st]
  have r1: "params endpointConfig = Some (ZObject shape mode) \<and> reqParams request = JObj kvs \<longrightarrow>
         handleRequest formatError apiToken (endpointConfig\<lparr>handler := h\<rparr>) request st =
           (Sent 400
              (JObj [(''statusCode'', JNum 400), (''code'', JStr ''FST_ERR_VALIDATION''),
                     (''error'', JStr ''Bad Request''),
                     (''message'', JStr (formatError ''params'' issues))]),
            [], st)"
    using inParams reply by blast
  have r2: "body endpointConfig = Some (ZObject shape mode) \<and> reqBody request = JObj kvs \<and>
         httpMethod endpointConfig \<noteq> ''GET'' \<and>
         validateParam (schemaParams endpointConfig) (reqParams request) = Inr validatedParams \<longrightarrow>
         handleRequest formatError apiToken (endpointConfig\<lparr>handler := h\<rparr>) request st =
           (Sent 400
              (JObj [(''statusCode'', JNum 400), (''code'', JStr ''FST_ERR_VALIDATION''),
                     (''error'', JStr ''Bad Request''),
                     (''message'', JStr (formatError ''body'' issues))]),
            [], st)"
    using inBody reply by blast
  have r3: "query endpointConfig = Some (ZObject shape mode) \<and> reqQuery request = JObj kvs \<and>
         validateParam (schemaParams endpointConfig) (reqParams request) = Inr validatedParams \<and>
         validateParam (schemaBody endpointConfig) (reqBody request) = Inr validatedBody \<longrightarrow>
         handleRequest formatError apiToken (endpointConfig\<lparr>handler := h\<rparr>) request st =
           (Sent 400
              (JObj [(''statusCode'', JNum 400), (''code'', JStr ''FST_ERR_VALIDATION''),
                     (''error'', JStr ''Bad Request''),
                     (''message'', JStr (formatError ''querystring'' issues))]),
            [], st)"
    using inQuery reply by blast
  have r4: "(params endpointConfig = Some (ZObject shape mode) \<and> reqParams request = JObj kvs) \<or>
       (body endpointConfig = Some (ZObject shape mode) \<and> reqBody request = JObj kvs \<and>
          httpMethod endpointConfig \<noteq> ''GET'') \<or>
       (query endpointConfig = Some (ZObject shape mode) \<and> reqQuery request = JObj kvs) \<longrightarrow>
       (\<exists>failed failedIssues.
          handleRequest formatError apiToken (endpointConfig\<lparr>handler := h\<rparr>) request st =
            (Sent 400
               (JObj [(''statusCode'', JNum 400), (''code'', JStr ''FST_ERR_VALIDATION''),
                      (''error'', JStr ''Bad Request''),
                      (''message'', JStr (formatError failed failedIssues))]),
             [], st))"
    using anywhere reply by blast
  from k mention failure part r1 r2 r3 r4 show ?thesis
    unfolding unknown_def issues_def by blast
qed

theorem unknown_keys_rejected_witness:
  "safeParse (applyStrict (ZObject [(''name'', zStringMin1)] Strip))
       (JObj [(''name'', JNum 1), (''extraField'', JStr ''should-be-rejected'')]) =
     Failure
       [\<lparr>path = [''name''], message = ''Expected string, received number''\<rparr>,
        \<lparr>path = [],
          message =
            ''Unrecognized key(s) in object: '' @ [CHR 0x27] @ ''extraField'' @ [CHR 0x27]\<rparr>] \<and>
   handleRequest exampleFormat (TokenString ''test-token-123'') exampleEndpoint
       (validRequest\<lparr>reqBody :=
          JObj [(''name'', JNum 1), (''extraField'', JStr ''should-be-rejected'')]\<rparr>) 0 =
     (Sent 400
        (JObj [(''statusCode'', JNum 400), (''code'', JStr ''FST_ERR_VALIDATION''),
               (''error'', JStr ''Bad Request''),
               (''message'',
                JStr (''body/name Expected string, received number, '' @
                      ''body/ Unrecognized key(s) in object: '' @
                      [CHR 0x27] @ ''extraField'' @ [CHR 0x27]))]),
      [], 0)"
proof -
  let ?shape = "[(''name'', zStringMin1)]"
  let ?kvs = "[(''name'', JNum 1), (''extraField'', JStr ''should-be-rejected'')]"
  let ?request = "validRequest\<lparr>reqBody := JObj ?kvs\<rparr>"
  have present: "''extraField'' \<in> set (map fst ?kvs)" by simp
  have undeclared: "''extraField'' \<notin> set (map fst ?shape)" by simp
  have fields: "fst (parseShape ?shape [] ?kvs) =
      [\<lparr>path = [''name''], message = ''Expected string, received number''\<rparr>]"
    by (simp add: zStringMin1_def lookup_def invalidTypeMessage_def)
  have declared: "body exampleEndpoint = Some (ZObject ?shape Strip) \<and>
      reqBody ?request = JObj ?kvs \<and> httpMethod exampleEndpoint \<noteq> ''GET'' \<and>
      validateParam (schemaParams exampleEndpoint) (reqParams ?request) =
        Inr (JObj [(''id'', JStr ''7'')])"
    by (simp add: exampleEndpoint_def validRequest_def exampleRequest_def validateParam_def
        schemaParams_def)
  have same: "exampleEndpoint\<lparr>handler := handler exampleEndpoint\<rparr> = exampleEndpoint"
    by simp
  show ?thesis
    using unknown_keys_rejected [OF present undeclared, where mode = Strip and part = "''body''"
        and endpointConfig = exampleEndpoint and request = ?request
        and st = 0 and formatError = exampleFormat
        and apiToken = "TokenString ''test-token-123''"
        and h = "handler exampleEndpoint"
        and validatedParams = "JObj [(''id'', JStr ''7'')]" and validatedBody = JUndefined]
      fields declared same
    by (auto simp: unrecognizedKeysMessage_def exampleFormat_def)
qed

section \<open>Handler errors and repeated validation on the route\<close>

text \<open>
  Claim C6. A handler that throws a \<^verbatim>\<open>ValidationError\<close> with field-message details: the
  wrapper replies 400 with the details, but the route has registered the standard
  error schema for status 400, which has no \<^verbatim>\<open>details\<close> key and strips unknown keys, so
  the transmitted document carries the status code, the error and the message only.
\<close>

theorem handler_validation_details_dropped:
  "failingHandler
       (ValidationError [\<lparr>field = ''body.email'', detailMessage = ''Email already taken''\<rparr>])
       validTyped 0 =
     (Inl (ValidationError
             [\<lparr>field = ''body.email'', detailMessage = ''Email already taken''\<rparr>]), 1) \<and>
   validatedHandler
       (publicEndpoint\<lparr>handler := failingHandler
          (ValidationError
             [\<lparr>field = ''body.email'', detailMessage = ''Email already taken''\<rparr>])\<rparr>)
       (validRequest\<lparr>reqQuery := JObj [(''limit'', JNum 10)]\<rparr>) 0 =
     (Replied 400
        \<lparr>statusCode = 400, error = ''Bad Request'', replyMessage = ''Validation failed'',
         details = Some [\<lparr>field = ''body.email'', detailMessage = ''Email already taken''\<rparr>]\<rparr>,
      [], 1) \<and>
   routeResponses publicEndpoint 400 = Some ErrorResponseSchema \<and>
   handleRequest exampleFormat (TokenString ''test-token-123'')
       (publicEndpoint\<lparr>handler := failingHandler
          (ValidationError
             [\<lparr>field = ''body.email'', detailMessage = ''Email already taken''\<rparr>])\<rparr>)
       validRequest 0 =
     (Sent 400
        (JObj [(''statusCode'', JNum 400), (''error'', JStr ''Bad Request''),
               (''message'', JStr ''Validation failed'')]),
      [], 1)"
proof -
  let ?ds = "[\<lparr>field = ''body.email'', detailMessage = ''Email already taken''\<rparr>]"
  let ?cfg = "publicEndpoint\<lparr>handler := failingHandler (ValidationError ?ds)\<rparr>"
  let ?validated = "validRequest\<lparr>reqQuery := JObj [(''limit'', JNum 10)]\<rparr>"
  let ?doc = "\<lparr>statusCode = 400, error = ''Bad Request'', replyMessage = ''Validation failed'',
               details = Some ?ds\<rparr>"
  have thrown: "failingHandler (ValidationError ?ds) validTyped 0 =
      (Inl (ValidationError ?ds), 1)"
    by (simp add: failingHandler_def)
  have public: "\<not> authenticated ?cfg"
    by (simp add: publicEndpoint_def)
  have schema: "fastifyValidation ?cfg validRequest = Inr ?validated"
    by (simp add: route_defs example_defs)
  have typed: "typedRequest publicEndpoint ?validated = Inr validTyped"
    by (simp add: route_defs example_defs)
  have wrapper: "validatedHandler ?cfg ?validated 0 = (Replied 400 ?doc, [], 1)"
    using typed thrown by (simp add: validatedHandler_def)
  have registered: "routeResponses publicEndpoint 400 = Some ErrorResponseSchema"
    by (simp add: routeResponses_standard)
  have sent: "transmit ?cfg (Replied 400 ?doc, [], 1) =
      (Sent 400
         (JObj [(''statusCode'', JNum 400), (''error'', JStr ''Bad Request''),
                (''message'', JStr ''Validation failed'')]),
       [], 1)"
    by (simp add: transmit_def serialize_def routeResponses_standard
        ErrorResponseSchema_docJson)
  have route: "handleRequest exampleFormat (TokenString ''test-token-123'') ?cfg validRequest 0 =
      (Sent 400
         (JObj [(''statusCode'', JNum 400), (''error'', JStr ''Bad Request''),
                (''message'', JStr ''Validation failed'')]),
       [], 1)"
    using public schema wrapper sent by (simp add: handleRequest_def)
  from thrown wrapper registered route show ?thesis
    by simp
qed

text \<open>
  Claim C8. The route validates every part twice, once in the framework's schema
  validation and once in the wrapper, the second time on the value the first has
  parsed. For a query schema with the field \<^verbatim>\<open>z.string().transform((s) => s.length)\<close> and
  the query \<^verbatim>\<open>{n: 'abc'}\<close>: the schema accepts the query and parses it to \<^verbatim>\<open>{n: 3}\<close>, the
  wrapper on its own would call the handler, but on the route the wrapper is given
  \<^verbatim>\<open>{n: 3}\<close>, rejects it, and the request is answered 400; the handler is not called.
\<close>

theorem double_validation_rejects_wellformed:
  "query lengthEndpoint = Some (ZObject [(''n'', zStringLength)] Strip) \<and>
   safeParse (applyStrict (ZObject [(''n'', zStringLength)] Strip))
       (JObj [(''n'', JStr ''abc'')]) =
     Success (JObj [(''n'', JNum 3)]) \<and>
   validatedHandler lengthEndpoint (validRequest\<lparr>reqQuery := JObj [(''n'', JStr ''abc'')]\<rparr>) 0 =
     (Returned (JObj [(''name'', JStr ''Al'')]), [], 1) \<and>
   fastifyValidation lengthEndpoint (validRequest\<lparr>reqQuery := JObj [(''n'', JStr ''abc'')]\<rparr>) =
     Inr (validRequest\<lparr>reqQuery := JObj [(''n'', JNum 3)]\<rparr>) \<and>
   typedRequest lengthEndpoint (validRequest\<lparr>reqQuery := JObj [(''n'', JNum 3)]\<rparr>) =
     Inl (ValidationError
            [\<lparr>field = ''query.n'', detailMessage = ''Expected string, received number''\<rparr>]) \<and>
   handleRequest exampleFormat (TokenString ''test-token-123'') lengthEndpoint
       (validRequest\<lparr>reqQuery := JObj [(''n'', JStr ''abc'')]\<rparr>) 0 =
     (Sent 400
        (JObj [(''statusCode'', JNum 400), (''error'', JStr ''Bad Request''),
               (''message'', JStr ''Validation failed'')]),
      [], 0)"
proof -
  let ?raw = "validRequest\<lparr>reqQuery := JObj [(''n'', JStr ''abc'')]\<rparr>"
  let ?validated = "validRequest\<lparr>reqQuery := JObj [(''n'', JNum 3)]\<rparr>"
  let ?e = "ValidationError
      [\<lparr>field = ''query.n'', detailMessage = ''Expected string, received number''\<rparr>]"
  have declared: "query lengthEndpoint = Some (ZObject [(''n'', zStringLength)] Strip)"
    by (simp add: lengthEndpoint_def publicEndpoint_def)
  have accepted: "safeParse (applyStrict (ZObject [(''n'', zStringLength)] Strip))
      (JObj [(''n'', JStr ''abc'')]) = Success (JObj [(''n'', JNum 3)])"
    by (simp add: safeParse_def zStringLength_def lookup_def)
  have alone: "validatedHandler lengthEndpoint ?raw 0 =
      (Returned (JObj [(''name'', JStr ''Al'')]), [], 1)"
    by (simp add: route_defs example_defs validatedHandler_def guardResponse_def)
  have public: "\<not> authenticated lengthEndpoint"
    by (simp add: lengthEndpoint_def publicEndpoint_def exampleEndpoint_def)
  have schema: "fastifyValidation lengthEndpoint ?raw = Inr ?validated"
    by (simp add: route_defs example_defs)
  have again: "typedRequest lengthEndpoint ?validated = Inl ?e"
    by (simp add: route_defs example_defs requestDetails_def)
  have sent: "transmit lengthEndpoint (catchError ?e, [], 0) =
      (Sent 400
         (JObj [(''statusCode'', JNum 400), (''error'', JStr ''Bad Request''),
                (''message'', JStr ''Validation failed'')]),
       [], 0)"
    by (simp add: transmit_catchError del: catchError.simps)
  have route: "handleRequest exampleFormat (TokenString ''test-token-123'') lengthEndpoint ?raw 0 =
      (Sent 400
         (JObj [(''statusCode'', JNum 400), (''error'', JStr ''Bad Request''),
                (''message'', JStr ''Validation failed'')]),
       [], 0)"
    using public schema again sent
    by (simp add: handleRequest_def validatedHandler_def del: catchError.simps)
  from declared accepted alone schema again route show ?thesis
    by simp
qed

section \<open>Properties of authentication\<close>

lemma malformed_iff:
  "(length (splitOn sep h) \<noteq> 2 \<or> splitOn sep h ! 0 \<noteq> scheme) \<longleftrightarrow>
   (\<forall>token. splitOn sep h \<noteq> [scheme, token])"
proof (cases "splitOn sep h")
  case Nil
  then show ?thesis by simp
next
  case (Cons a as)
  then show ?thesis
    by (cases as; cases "tl as") auto
qed

text \<open>
  Claim C2, as stated, gives a header that is not of the form \<^verbatim>\<open>Bearer <token>\<close> the
  format message, and a rejection by the validator the validator's message whenever
  it supplies one. Both tests in the code are tests of truthiness: the empty header is
  answered with the missing-header message, and an empty message of the validator is
  replaced by \<^verbatim>\<open>Invalid token\<close>.
\<close>

theorem authenticateToken_empty_counterexample:
  "reqAuthorization (exampleRequest\<lparr>reqAuthorization := Some []\<rparr>) = Some [] \<and>
   length (splitOn CHR '' '' []) \<noteq> 2 \<and>
   authenticateToken (TokenString ''test-token-123'')
       (exampleRequest\<lparr>reqAuthorization := Some []\<rparr>) =
     AuthReplied 401
       \<lparr>statusCode = 401, error = ''Unauthorized'',
        replyMessage = ''Missing authorization header'', details = None\<rparr> \<and>
   authenticateToken (TokenString ''test-token-123'')
       (exampleRequest\<lparr>reqAuthorization := Some []\<rparr>) \<noteq>
     AuthReplied 401
       \<lparr>statusCode = 401, error = ''Unauthorized'',
        replyMessage = ''Invalid authorization header format. Expected: Bearer <token>'',
        details = None\<rparr> \<and>
   exampleValidator [] (exampleRequest\<lparr>reqAuthorization := Some ''Bearer ''\<rparr>) =
     Inr \<lparr>valid = False, authContext = None, authError = Some []\<rparr> \<and>
   authenticateToken (TokenValidator exampleValidator)
       (exampleRequest\<lparr>reqAuthorization := Some ''Bearer ''\<rparr>) =
     AuthReplied 403
       \<lparr>statusCode = 403, error = ''Forbidden'', replyMessage = ''Invalid token'',
        details = None\<rparr> \<and>
   authenticateToken (TokenValidator exampleValidator)
       (exampleRequest\<lparr>reqAuthorization := Some ''Bearer ''\<rparr>) \<noteq>
     AuthReplied 403
       \<lparr>statusCode = 403, error = ''Forbidden'', replyMessage = [], details = None\<rparr>"
  by (simp add: authenticateToken_def exampleRequest_def exampleValidator_def)

text \<open>
  Claim C2, amended. The authentication hook, on the request it is given: a missing or
  empty authorization header is answered 401 \<^verbatim>\<open>Unauthorized\<close> with the message
  \<^verbatim>\<open>Missing authorization header\<close>; a non-empty header that does not split at spaces into
  exactly the scheme \<^verbatim>\<open>Bearer\<close> and one token is answered 401 \<^verbatim>\<open>Unauthorized\<close> with the format
  message; with a configured string, a token different from it is answered 403
  \<^verbatim>\<open>Forbidden\<close> with \<^verbatim>\<open>Invalid token\<close> and the string itself passes; with a validator
  function that returns \<^verbatim>\<open>valid: false\<close>, 403 \<^verbatim>\<open>Forbidden\<close> with the validator's message, or
  \<^verbatim>\<open>Invalid token\<close> when that message is absent or empty; a validator that returns
  \<^verbatim>\<open>valid: true\<close> passes the request on, with its context attached if it has supplied
  one. On the route of an authenticated endpoint the hook runs on the requests that
  pass the framework's schema validation: its reply is transmitted with its status code,
  error and message; when it passes, the typed request given to the handler carries
  the same \<^verbatim>\<open>auth\<close> value as the request the hook has passed on, and a handler result that
  the response schema accepts is sent with status 200.
\<close>

theorem authenticateToken_outcomes:
  "(reqAuthorization request = None \<or> reqAuthorization request = Some [] \<longrightarrow>
      authenticateToken apiToken request =
        AuthReplied 401
          \<lparr>statusCode = 401, error = ''Unauthorized'',
           replyMessage = ''Missing authorization header'', details = None\<rparr>) \<and>
   (reqAuthorization request = Some h \<and> h \<noteq> [] \<and>
      (\<forall>token. splitOn CHR '' '' h \<noteq> [''Bearer'', token]) \<longrightarrow>
      authenticateToken apiToken request =
        AuthReplied 401
          \<lparr>statusCode = 401, error = ''Unauthorized'',
           replyMessage = ''Invalid authorization header format. Expected: Bearer <token>'',
           details = None\<rparr>) \<and>
   (reqAuthorization request = Some h \<and> h \<noteq> [] \<and>
      splitOn CHR '' '' h = [''Bearer'', token] \<longrightarrow>
      (apiToken = TokenString secret \<and> token \<noteq> secret \<longrightarrow>
         authenticateToken apiToken request =
           AuthReplied 403
             \<lparr>statusCode = 403, error = ''Forbidden'', replyMessage = ''Invalid token'',
              details = None\<rparr>) \<and>
      (apiToken = TokenString token \<longrightarrow>
         authenticateToken apiToken request = AuthPassed request) \<and>
      (apiToken = TokenValidator validator \<and> validator token request = Inr result \<and>
         \<not> valid result \<longrightarrow>
         authenticateToken apiToken request =
           AuthReplied 403
             \<lparr>statusCode = 403, error = ''Forbidden'',
              replyMessage =
                (case authError result of
                   None \<Rightarrow> ''Invalid token''
                 | Some msg \<Rightarrow> if msg = [] then ''Invalid token'' else msg),
              details = None\<rparr>) \<and>
      (apiToken = TokenValidator validator \<and> validator token request = Inr result \<and>
         valid result \<longrightarrow>
         authenticateToken apiToken request =
           AuthPassed (case authContext result of
                         None \<Rightarrow> request
                       | Some c \<Rightarrow> request\<lparr>reqAuth := Some c\<rparr>))) \<and>
   (authenticated endpointConfig \<and> fastifyValidation endpointConfig received = Inr request \<longrightarrow>
      (authenticateToken apiToken request = AuthReplied code doc \<longrightarrow>
         handleRequest formatError apiToken endpointConfig received st =
           (Sent code
              (JObj [(''statusCode'', JNum (int code)), (''error'', JStr (error doc)),
                     (''message'', JStr (replyMessage doc))]),
            [], st)) \<and>
      (authenticateToken apiToken request = AuthPassed request' \<and>
         typedRequest endpointConfig request' = Inr typed \<longrightarrow>
         reqAuth typed = reqAuth request' \<and>
         (handler endpointConfig typed st = (Inr result', st') \<and>
            safeParse (applyStrict (response endpointConfig)) result' = Success parsed \<longrightarrow>
            handleRequest formatError apiToken endpointConfig received st =
              (Sent 200 parsed, [], st'))))"
proof (intro conjI impI)
  assume "reqAuthorization request = None \<or> reqAuthorization request = Some []"
  then show "authenticateToken apiToken request =
        AuthReplied 401
          \<lparr>statusCode = 401, error = ''Unauthorized'',
           replyMessage = ''Missing authorization header'', details = None\<rparr>"
    by (auto simp: authenticateToken_def)
next
  assume "reqAuthorization request = Some h \<and> h \<noteq> [] \<and>
      (\<forall>token. splitOn CHR '' '' h \<noteq> [''Bearer'', token])"
  then show "authenticateToken apiToken request =
        AuthReplied 401
          \<lparr>statusCode = 401, error = ''Unauthorized'',
           replyMessage = ''Invalid authorization header format. Expected: Bearer <token>'',
           details = None\<rparr>"
    using malformed_iff [of "CHR '' ''" h "''Bearer''"]
    by (simp add: authenticateToken_def Let_def)
next
  assume "reqAuthorization request = Some h \<and> h \<noteq> [] \<and>
      splitOn CHR '' '' h = [''Bearer'', token]"
    and "apiToken = TokenString secret \<and> token \<noteq> secret"
  then show "authenticateToken apiToken request =
           AuthReplied 403
             \<lparr>statusCode = 403, error = ''Forbidden'', replyMessage = ''Invalid token'',
              details = None\<rparr>"
    by (simp add: authenticateToken_def)
next
  assume "reqAuthorization request = Some h \<and> h \<noteq> [] \<and>
      splitOn CHR '' '' h = [''Bearer'', token]"
    and "apiToken = TokenString token"
  then show "authenticateToken apiToken request = AuthPassed request"
    by (simp add: authenticateToken_def)
next
  assume "reqAuthorization request = Some h \<and> h \<noteq> [] \<and>
      splitOn CHR '' '' h = [''Bearer'', token]"
    and "apiToken = TokenValidator validator \<and> validator token request = Inr result \<and>
      \<not> valid result"
  then show "authenticateToken apiToken request =
           AuthReplied 403
             \<lparr>statusCode = 403, error = ''Forbidden'',
              replyMessage =
                (case authError result of
                   None \<Rightarrow> ''Invalid token''
                 | Some msg \<Rightarrow> if msg = [] then ''Invalid token'' else msg),
              details = None\<rparr>"
    by (simp add: authenticateToken_def)
next
  assume "reqAuthorization request = Some h \<and> h \<noteq> [] \<and>
      splitOn CHR '' '' h = [''Bearer'', token]"
    and "apiToken = TokenValidator validator \<and> validator token request = Inr result \<and>
      valid result"
  then show "authenticateToken apiToken request =
           AuthPassed (case authContext result of
                         None \<Rightarrow> request
                       | Some c \<Rightarrow> request\<lparr>reqAuth := Some c\<rparr>)"
    by (simp add: authenticateToken_def split: option.splits)
next
  assume "authenticated endpointConfig \<and> fastifyValidation endpointConfig received = Inr request"
    and "authenticateToken apiToken request = AuthReplied code doc"
  then show "handleRequest formatError apiToken endpointConfig received st =
           (Sent code
              (JObj [(''statusCode'', JNum (int code)), (''error'', JStr (error doc)),
                     (''message'', JStr (replyMessage doc))]),
            [], st)"
    using serialize_auth_reply [of endpointConfig apiToken request code doc]
    by (simp add: handleRequest_def)
next
  assume "authenticateToken apiToken request = AuthPassed request' \<and>
      typedRequest endpointConfig request' = Inr typed"
  then show "reqAuth typed = reqAuth request'"
    by (auto simp: typedRequest_def split: sum.splits)
next
  assume "authenticated endpointConfig \<and> fastifyValidation endpointConfig received = Inr request"
    and "authenticateToken apiToken request = AuthPassed request' \<and>
      typedRequest endpointConfig request' = Inr typed"
    and "handler endpointConfig typed st = (Inr result', st') \<and>
      safeParse (applyStrict (response endpointConfig)) result' = Success parsed"
  then show "handleRequest formatError apiToken endpointConfig received st =
      (Sent 200 parsed, [], st')"
    by (simp add: handleRequest_def validatedHandler_def guardResponse_def transmit_def
        serialize_def routeResponses_standard)
qed

theorem authenticateToken_outcomes_witness:
  "authenticateToken (TokenString ''test-token-123'') validRequest =
     AuthReplied 401
       \<lparr>statusCode = 401, error = ''Unauthorized'',
        replyMessage = ''Missing authorization header'', details = None\<rparr> \<and>
   authenticateToken (TokenString ''test-token-123'')
       (validRequest\<lparr>reqAuthorization := Some ''Basic abc''\<rparr>) =
     AuthReplied 401
       \<lparr>statusCode = 401, error = ''Unauthorized'',
        replyMessage = ''Invalid authorization header format. Expected: Bearer <token>'',
        details = None\<rparr> \<and>
   authenticateToken (TokenString ''test-token-123'')
       (validRequest\<lparr>reqAuthorization := Some ''Bearer wrong''\<rparr>) =
     AuthReplied 403
       \<lparr>statusCode = 403, error = ''Forbidden'', replyMessage = ''Invalid token'',
        details = None\<rparr> \<and>
   authenticateToken (TokenValidator exampleValidator)
       (validRequest\<lparr>reqAuthorization := Some ''Bearer wrong''\<rparr>) =
     AuthReplied 403
       \<lparr>statusCode = 403, error = ''Forbidden'', replyMessage = ''Invalid or expired token'',
        details = None\<rparr> \<and>
   handleRequest exampleFormat (TokenString ''test-token-123'') exampleEndpoint
       (validRequest\<lparr>reqAuthorization := Some ''Bearer wrong''\<rparr>) 0 =
     (Sent 403
        (JObj [(''statusCode'', JNum 403), (''error'', JStr ''Forbidden''),
               (''message'', JStr ''Invalid token'')]),
      [], 0) \<and>
   reqAuth (validTyped\<lparr>reqAuthorization := Some ''Bearer admin-token-123'',
                         reqAuth := Some ''admin''\<rparr>) = Some ''admin'' \<and>
   handleRequest exampleFormat (TokenValidator exampleValidator) exampleEndpoint
       (validRequest\<lparr>reqAuthorization := Some ''Bearer admin-token-123''\<rparr>) 0 =
     (Sent 200 (JObj [(''name'', JStr ''Al'')]), [], 1)"
proof -
  let ?t = "TokenString ''test-token-123'' :: string apiToken"
  let ?f = "TokenValidator exampleValidator"
  let ?basic = "validRequest\<lparr>reqAuthorization := Some ''Basic abc''\<rparr>"
  let ?wrong = "validRequest\<lparr>reqAuthorization := Some ''Bearer wrong''\<rparr>"
  let ?admin = "validRequest\<lparr>reqAuthorization := Some ''Bearer admin-token-123''\<rparr>"
  let ?wrong' = "?wrong\<lparr>reqQuery := JObj [(''limit'', JNum 10)]\<rparr>"
  let ?admin' = "?admin\<lparr>reqQuery := JObj [(''limit'', JNum 10)]\<rparr>"
  let ?typed = "validTyped\<lparr>reqAuthorization := Some ''Bearer admin-token-123'',
                            reqAuth := Some ''admin''\<rparr>"
  let ?doc = "\<lparr>statusCode = 403, error = ''Forbidden'', replyMessage = ''Invalid token'',
               details = None\<rparr>"
  let ?rejected = "\<lparr>valid = False, authContext = None,
                    authError = Some ''Invalid or expired token''\<rparr>"
  let ?accepted = "\<lparr>valid = True, authContext = Some ''admin'', authError = None\<rparr>"
  let ?good = "JObj [(''name'', JStr ''Al'')]"
  have auth: "authenticated exampleEndpoint"
    by (simp add: exampleEndpoint_def)
  have none: "reqAuthorization validRequest = None"
    by (simp add: validRequest_def exampleRequest_def)
  have basic: "reqAuthorization ?basic = Some ''Basic abc'' \<and> ''Basic abc'' \<noteq> [] \<and>
      (\<forall>token. splitOn CHR '' '' ''Basic abc'' \<noteq> [''Bearer'', token])"
    by simp
  have wrong: "reqAuthorization ?wrong = Some ''Bearer wrong'' \<and> ''Bearer wrong'' \<noteq> [] \<and>
      splitOn CHR '' '' ''Bearer wrong'' = [''Bearer'', ''wrong'']"
    by simp
  have rejected: "exampleValidator ''wrong'' ?wrong = Inr ?rejected"
    by (simp add: exampleValidator_def)
  have fw: "fastifyValidation exampleEndpoint ?wrong = Inr ?wrong'"
    by (simp add: route_defs example_defs)
  have fa: "fastifyValidation exampleEndpoint ?admin = Inr ?admin'"
    by (simp add: route_defs example_defs)
  have aw: "authenticateToken ?t ?wrong' = AuthReplied 403 ?doc"
    by (simp add: authenticateToken_def)
  have aa: "authenticateToken ?f ?admin' = AuthPassed (?admin'\<lparr>reqAuth := Some ''admin''\<rparr>)"
    by (simp add: authenticateToken_def exampleValidator_def)
  have ta: "typedRequest exampleEndpoint (?admin'\<lparr>reqAuth := Some ''admin''\<rparr>) = Inr ?typed"
    by (simp add: example_defs)
  have ha: "handler exampleEndpoint ?typed 0 = (Inr ?good, 1)"
    by (simp add: example_defs)
  have ga: "safeParse (applyStrict (response exampleEndpoint)) ?good = Success ?good"
    by (simp add: example_defs)
  note outcomes = authenticateToken_outcomes
  show ?thesis
    using
      outcomes [where request = validRequest and apiToken = ?t and h = "[]"
        and token = "[]" and secret = "[]" and validator = exampleValidator
        and result = ?rejected and endpointConfig = exampleEndpoint
        and received = validRequest and code = 0 and doc = ?doc and request' = validRequest
        and typed = validTyped and st = 0 and result' = ?good and st' = 0 and parsed = ?good
        and formatError = exampleFormat, THEN conjunct1]
      outcomes [where request = ?basic and apiToken = ?t and h = "''Basic abc''"
        and token = "[]" and secret = "[]" and validator = exampleValidator
        and result = ?rejected and endpointConfig = exampleEndpoint
        and received = validRequest and code = 0 and doc = ?doc and request' = validRequest
        and typed = validTyped and st = 0 and result' = ?good and st' = 0 and parsed = ?good
        and formatError = exampleFormat, THEN conjunct2, THEN conjunct1]
      outcomes [where request = ?wrong and apiToken = ?t and h = "''Bearer wrong''"
        and token = "''wrong''" and secret = "''test-token-123''"
        and validator = exampleValidator
        and result = ?rejected and endpointConfig = exampleEndpoint
        and received = validRequest and code = 0 and doc = ?doc and request' = validRequest
        and typed = validTyped and st = 0 and result' = ?good and st' = 0 and parsed = ?good
        and formatError = exampleFormat, THEN conjunct2, THEN conjunct2, THEN conjunct1]
      outcomes [where request = ?wrong and apiToken = ?f and h = "''Bearer wrong''"
        and token = "''wrong''" and secret = "''test-token-123''"
        and validator = exampleValidator
        and result = ?rejected and endpointConfig = exampleEndpoint
        and received = validRequest and code = 0 and doc = ?doc and request' = validRequest
        and typed = validTyped and st = 0 and result' = ?good and st' = 0 and parsed = ?good
        and formatError = exampleFormat, THEN conjunct2, THEN conjunct2, THEN conjunct1]
      outcomes [where request = ?wrong' and apiToken = ?t and h = "''Bearer wrong''"
        and token = "''wrong''" and secret = "''test-token-123''"
        and validator = exampleValidator
        and result = ?rejected and endpointConfig = exampleEndpoint
        and received = ?wrong and code = 403 and doc = ?doc and request' = validRequest
        and typed = validTyped and st = 0 and result' = ?good and st' = 0 and parsed = ?good
        and formatError = exampleFormat, THEN conjunct2, THEN conjunct2, THEN conjunct2]
      outcomes [where request = ?admin' and apiToken = ?f and h = "''Bearer wrong''"
        and token = "''wrong''" and secret = "''test-token-123''"
        and validator = exampleValidator
        and result = ?rejected and endpointConfig = exampleEndpoint
        and received = ?admin and code = 403 and doc = ?doc
        and request' = "?admin'\<lparr>reqAuth := Some ''admin''\<rparr>"
        and typed = ?typed and st = 0 and result' = ?good and st' = 1 and parsed = ?good
        and formatError = exampleFormat, THEN conjunct2, THEN conjunct2, THEN conjunct2]
      auth none basic wrong rejected fw fa aw aa ta ha ga
    by simp
qed

text \<open>
  Claim C10. The header \<^verbatim>\<open>Bearer\<close> followed by one space splits into the scheme and the
  empty token, so the hook never answers it 401: with a non-empty configured string it
  answers 403 \<^verbatim>\<open>Forbidden\<close> with \<^verbatim>\<open>Invalid token\<close>, and with a validator function it calls
  the function on the empty token and follows its result.
\<close>

theorem bearer_empty_token:
  assumes "reqAuthorization request = Some ''Bearer ''"
  shows "splitOn CHR '' '' ''Bearer '' = [''Bearer'', []] \<and>
    (\<forall>doc. authenticateToken apiToken request \<noteq> AuthReplied 401 doc) \<and>
    (secret \<noteq> [] \<longrightarrow>
       authenticateToken (TokenString secret) request =
         AuthReplied 403
           \<lparr>statusCode = 403, error = ''Forbidden'', replyMessage = ''Invalid token'',
            details = None\<rparr>) \<and>
    authenticateToken (TokenValidator validator) request =
      (case validator [] request of
         Inl e \<Rightarrow> AuthThrown e
       | Inr result \<Rightarrow>
           if \<not> valid result
           then AuthReplied 403
                  \<lparr>statusCode = 403, error = ''Forbidden'',
                   replyMessage =
                     (case authError result of
                        None \<Rightarrow> ''Invalid token''
                      | Some msg \<Rightarrow> if msg = [] then ''Invalid token'' else msg),
                   details = None\<rparr>
           else AuthPassed (case authContext result of
                              None \<Rightarrow> request
                            | Some c \<Rightarrow> request\<lparr>reqAuth := Some c\<rparr>))"
  using assms
  by (cases apiToken)
    (auto simp: authenticateToken_def split: sum.splits option.splits)

theorem bearer_empty_token_witness:
  "authenticateToken (TokenString ''test-token-123'')
       (exampleRequest\<lparr>reqAuthorization := Some ''Bearer ''\<rparr>) =
     AuthReplied 403
       \<lparr>statusCode = 403, error = ''Forbidden'', replyMessage = ''Invalid token'',
        details = None\<rparr> \<and>
   authenticateToken (TokenValidator exampleValidator)
       (exampleRequest\<lparr>reqAuthorization := Some ''Bearer ''\<rparr>) =
     AuthReplied 403
       \<lparr>statusCode = 403, error = ''Forbidden'', replyMessage = ''Invalid token'',
        details = None\<rparr>"
proof -
  have h: "reqAuthorization (exampleRequest\<lparr>reqAuthorization := Some ''Bearer ''\<rparr>) =
      Some ''Bearer ''"
    by simp
  show ?thesis
    using bearer_empty_token [OF h, where secret = "''test-token-123''"
        and validator = exampleValidator and apiToken = "TokenString ''test-token-123''"]
    by (simp add: exampleValidator_def)
qed

end
